theory Spec2Isabelle
  imports Complex_Main "HOL-Library.Log_Nat"
begin

section \<open>The number type of the source\<close>

text \<open>
  Every amount of \<^verbatim>\<open>src/main.ts\<close> is a TypeScript \<^verbatim>\<open>number\<close>. The range check
  divides by a target that may be zero, and the language answers such a division with
  an infinity or with NaN instead of raising, so the special values are part of the
  model: a number is a finite value, negative zero, one of the two infinities, or NaN.
  \<open>Fin 0\<close> is positive zero.

  A finite value is a rational number. The finite values of the language are the
  binary64 numbers, the rationals \<open>m * 2 ^ e\<close> with \<open>\<bar>m\<bar> < 2 ^ 53\<close> and
  \<open>- 1074 \<le> e \<le> 971\<close>, and every operation rounds its exact result to the nearest of
  them (\<open>round64\<close> below), so the operations of the model return what the language
  computes, on the finite values as on the special ones.
\<close>

datatype number = Fin rat | NegZero | PosInf | NegInf | NaN

fun is_nan :: "number \<Rightarrow> bool" where
  "is_nan NaN = True"
| "is_nan _ = False"

fun is_inf :: "number \<Rightarrow> bool" where
  "is_inf PosInf = True"
| "is_inf NegInf = True"
| "is_inf _ = False"

fun is_finite :: "number \<Rightarrow> bool" where
  "is_finite (Fin _) = True"
| "is_finite NegZero = True"
| "is_finite _ = False"

text \<open>The value of a finite number; both zeros have the value 0.\<close>

fun val :: "number \<Rightarrow> rat" where
  "val (Fin r) = r"
| "val _ = 0"

fun is_zero :: "number \<Rightarrow> bool" where
  "is_zero (Fin r) = (r = 0)"
| "is_zero NegZero = True"
| "is_zero _ = False"

text \<open>The sign bit: \<open>True\<close> for a negative number, for negative zero and for \<open>-Infinity\<close>.\<close>

fun sign :: "number \<Rightarrow> bool" where
  "sign (Fin r) = (r < 0)"
| "sign NegZero = True"
| "sign NegInf = True"
| "sign _ = False"

definition mk_zero :: "bool \<Rightarrow> number" where
  "mk_zero s = (if s then NegZero else Fin 0)"

definition mk_inf :: "bool \<Rightarrow> number" where
  "mk_inf s = (if s then NegInf else PosInf)"

text \<open>
  Rounding to the nearest binary64 number, ties to the even significand. For \<open>x > 0\<close>,
  \<open>floor_log2 x\<close> is the \<open>k\<close> with \<open>2 ^ k \<le> x < 2 ^ (k + 1)\<close>: it is one of the two
  candidates that the bit lengths of numerator and denominator leave. The unit in the
  last place of \<open>x\<close> is \<open>2 ^ e\<close> with \<open>e = floor_log2 x - 52\<close>, and not below
  \<open>2 ^ (- 1074)\<close>, where the numbers become subnormal. The significand \<open>m\<close> is the
  quotient of \<open>\<bar>x\<bar>\<close> by the unit, rounded to an integer. The rounded value is
  \<open>m * 2 ^ e\<close>; it is at least \<open>2 ^ 1024\<close>, and then the result is an infinity, exactly
  when \<open>e > 971\<close>, or \<open>e = 971\<close> and \<open>m\<close> has reached \<open>2 ^ 53\<close>. A result that rounds to
  zero keeps the sign of \<open>x\<close>.
\<close>

definition pow2 :: "int \<Rightarrow> rat" where
  "pow2 k = (if 0 \<le> k then 2 ^ nat k else 1 / 2 ^ nat (- k))"

definition floor_log2 :: "rat \<Rightarrow> int" where
  "floor_log2 x =
     (let (p, q) = quotient_of x; k = bitlen p - bitlen q
      in if pow2 k \<le> x then k else k - 1)"

definition round_half_even :: "rat \<Rightarrow> int" where
  "round_half_even x =
     (let f = \<lfloor>x\<rfloor>; d = x - of_int f
      in if d < 1/2 then f else if 1/2 < d then f + 1 else if even f then f else f + 1)"

definition round64 :: "rat \<Rightarrow> number" where
  "round64 x =
     (if x = 0 then Fin 0
      else let a = \<bar>x\<bar>;
               e = max (floor_log2 a - 52) (- 1074);
               m = round_half_even (a / pow2 e);
               y = of_int m * pow2 e
           in if 971 < e \<or> (e = 971 \<and> 2 ^ 53 \<le> m) then mk_inf (x < 0)
              else if m = 0 then mk_zero (x < 0)
              else Fin (if x < 0 then - y else y))"

text \<open>
  \<^verbatim>\<open>a - b\<close>. An exact difference of zero is negative only for \<^verbatim>\<open>(-0) - (+0)\<close>; any
  other difference is rounded.
\<close>

definition num_sub :: "number \<Rightarrow> number \<Rightarrow> number" where
  "num_sub a b =
     (if is_nan a \<or> is_nan b then NaN
      else if is_inf a then (if is_inf b \<and> sign a = sign b then NaN else a)
      else if is_inf b then mk_inf (\<not> sign b)
      else if val a - val b = 0 then mk_zero (a = NegZero \<and> b = Fin 0)
      else round64 (val a - val b))"

text \<open>
  \<^verbatim>\<open>a + b\<close>. An exact sum of zero is negative only for \<^verbatim>\<open>(-0) + (-0)\<close>; any other sum
  is rounded.
\<close>

definition num_add :: "number \<Rightarrow> number \<Rightarrow> number" where
  "num_add a b =
     (if is_nan a \<or> is_nan b then NaN
      else if is_inf a then (if is_inf b \<and> sign a \<noteq> sign b then NaN else a)
      else if is_inf b then b
      else if val a + val b = 0 then mk_zero (a = NegZero \<and> b = NegZero)
      else round64 (val a + val b))"

text \<open>
  \<^verbatim>\<open>a / b\<close>. Division never raises: \<^verbatim>\<open>0/0\<close> and \<^verbatim>\<open>Infinity/Infinity\<close> are NaN, a
  non-zero number over a zero is an infinity, and the sign of the result is the
  exclusive or of the signs of the operands. The quotient of two finite non-zero
  numbers is rounded.
\<close>

definition num_div :: "number \<Rightarrow> number \<Rightarrow> number" where
  "num_div a b =
     (if is_nan a \<or> is_nan b then NaN
      else if is_inf a then (if is_inf b then NaN else mk_inf (sign a \<noteq> sign b))
      else if is_inf b then mk_zero (sign a \<noteq> sign b)
      else if is_zero b then (if is_zero a then NaN else mk_inf (sign a \<noteq> sign b))
      else if is_zero a then mk_zero (sign a \<noteq> sign b)
      else round64 (val a / val b))"

text \<open>\<^verbatim>\<open>Math.abs(a)\<close>.\<close>

fun num_abs :: "number \<Rightarrow> number" where
  "num_abs (Fin r) = Fin \<bar>r\<bar>"
| "num_abs NegZero = Fin 0"
| "num_abs PosInf = PosInf"
| "num_abs NegInf = PosInf"
| "num_abs NaN = NaN"

text \<open>\<^verbatim>\<open>a <= b\<close> and \<^verbatim>\<open>a > b\<close>: false as soon as an operand is NaN; the zeros are equal.\<close>

definition num_le :: "number \<Rightarrow> number \<Rightarrow> bool" where
  "num_le a b =
     (if is_nan a \<or> is_nan b then False
      else if a = NegInf \<or> b = PosInf then True
      else if a = PosInf \<or> b = NegInf then False
      else val a \<le> val b)"

definition num_gt :: "number \<Rightarrow> number \<Rightarrow> bool" where
  "num_gt a b =
     (if is_nan a \<or> is_nan b then False
      else if a = b then False
      else if a = PosInf \<or> b = NegInf then True
      else if a = NegInf \<or> b = PosInf then False
      else val b < val a)"

text \<open>
  \<^verbatim>\<open>LAMPORTS_PER_SOL\<close> of \<^verbatim>\<open>@solana/web3.js\<close>, and the literal \<^verbatim>\<open>0.1\<close> of the range
  check: a decimal literal denotes the binary64 number nearest to it, which here is
  3602879701896397 / 2 ^ 55, a little more than 1/10.
\<close>

definition LAMPORTS_PER_SOL :: number where
  "LAMPORTS_PER_SOL = Fin 1000000000"

definition literal_0_1 :: number where
  "literal_0_1 = round64 (1/10)"

section \<open>The venue and what a run does to it\<close>

text \<open>A thrown value: \<^verbatim>\<open>new Error(msg)\<close>, or any other value, told apart by a number.\<close>

datatype thrown = Error string | Raised nat

text \<open>\<^verbatim>\<open>interface PoolInfo\<close> of the liquidity module.\<close>

record PoolInfo =
  liquidity1Amount :: number
  liquidity2Amount :: number

datatype mint = PublicKey_default | PublicKey string

datatype direction = solToToken | tokenToSol

type_synonym transaction = nat
type_synonym raw = nat
type_synonym txid = nat

text \<open>
  The calls a run makes on its collaborators, with their arguments, and the lines it
  prints, in the order in which they happen. The arguments are the fields of the
  parameter objects: \<open>RemoveLiquidity poolId amountIn wallet\<close>,
  \<open>Swap poolId inputMint outputMint inputAmount wallet\<close>,
  \<open>AddLiquidity poolId amount1 amount2 wallet\<close>, and \<open>Sign transaction owner\<close> for
  \<^verbatim>\<open>transaction.sign(this.owner)\<close>.
\<close>

datatype event =
    FetchPoolById string
  | RemoveLiquidity string string string
  | Swap string mint mint number string
  | AddLiquidity string number number string
  | GetLatestBlockhash
  | Sign transaction string
  | Serialize transaction
  | SendRawTransaction raw
  | ConfirmTransaction txid
  | ConsoleLog string
  | ConsoleError string thrown

text \<open>
  The collaborators (\<^verbatim>\<open>this.raydium\<close> and \<^verbatim>\<open>this.connection\<close>) are a parameter of
  the model. Each call first appends its event to the trace, then the venue answers
  from the whole trace so far, so an answer may depend on the arguments of the call and
  on everything that happened before it. An answer is a thrown value (\<open>Inl\<close>) or a
  result (\<open>Inr\<close>). \<open>fetchPoolById\<close> may answer \<open>None\<close> for \<^verbatim>\<open>null\<close> or
  \<^verbatim>\<open>undefined\<close>. The answer of \<open>swap_swap\<close> holds the transaction and the value of
  \<^verbatim>\<open>Number(minAmountOut)\<close>. Signing and serialising are calls on the transaction that the
  venue built, so their answers are the venue's too.
\<close>

record venue =
  fetchPoolById :: "event list \<Rightarrow> thrown + PoolInfo list option"
  liquidity_removeLiquidity :: "event list \<Rightarrow> thrown + transaction"
  swap_swap :: "event list \<Rightarrow> thrown + transaction \<times> number"
  liquidity_addLiquidity :: "event list \<Rightarrow> thrown + transaction"
  getLatestBlockhash :: "event list \<Rightarrow> thrown + unit"
  transaction_sign :: "event list \<Rightarrow> thrown + unit"
  transaction_serialize :: "event list \<Rightarrow> thrown + raw"
  sendRawTransaction :: "event list \<Rightarrow> thrown + txid"
  confirmTransaction :: "event list \<Rightarrow> thrown + unit"

section \<open>The class RaydiumLiquidityRebalancer\<close>

record rebalancer =
  owner :: string
  poolId :: string
  initialSolAmount :: number
  initialTokenAmount :: number
  tokenMint :: mint

text \<open>The constructor stores its arguments; it checks nothing.\<close>

definition constructor :: "string \<Rightarrow> string \<Rightarrow> mint \<Rightarrow> number \<Rightarrow> number \<Rightarrow> rebalancer" where
  "constructor owner' poolId' tokenMint' initialSolAmount' initialTokenAmount' =
     \<lparr>owner = owner', poolId = poolId', initialSolAmount = initialSolAmount',
      initialTokenAmount = initialTokenAmount', tokenMint = tokenMint'\<rparr>"

text \<open>
  \<^verbatim>\<open>checkPositionRange\<close>. There is no \<^verbatim>\<open>try\<close> here: a value thrown by the query
  goes to the caller as it is.
\<close>

definition checkPositionRange :: "rebalancer \<Rightarrow> venue \<Rightarrow> event list \<Rightarrow> event list \<times> (thrown + bool)" where
  "checkPositionRange this v tr =
     (let tr1 = tr @ [FetchPoolById (poolId this)] in
      case fetchPoolById v tr1 of
        Inl e \<Rightarrow> (tr1, Inl e)
      | Inr None \<Rightarrow> (tr1, Inl (Error ''Pool not found''))
      | Inr (Some []) \<Rightarrow> (tr1, Inl (Error ''Pool not found''))
      | Inr (Some (pool # _)) \<Rightarrow>
          (let currentSolAmount = num_div (liquidity1Amount pool) LAMPORTS_PER_SOL;
               currentTokenAmount = liquidity2Amount pool
           in (tr1, Inr
                (num_le (num_div (num_abs (num_sub currentSolAmount (initialSolAmount this)))
                                 (initialSolAmount this)) literal_0_1 \<and>
                 num_le (num_div (num_abs (num_sub currentTokenAmount (initialTokenAmount this)))
                                 (initialTokenAmount this)) literal_0_1))))"

text \<open>
  The lines that sign, send and confirm a transaction; the source repeats them in each
  of the three operations, always inside the \<^verbatim>\<open>try\<close> block: the latest blockhash is
  asked for, the transaction is signed, serialised and sent, and the confirmation is
  awaited. Each step can throw, and the steps after it are then not made.
\<close>

definition signAndSend :: "rebalancer \<Rightarrow> venue \<Rightarrow> transaction \<Rightarrow> event list \<Rightarrow> event list \<times> (thrown + unit)" where
  "signAndSend this v tx tr =
     (let tr1 = tr @ [GetLatestBlockhash] in
      case getLatestBlockhash v tr1 of
        Inl e \<Rightarrow> (tr1, Inl e)
      | Inr _ \<Rightarrow>
          (let tr2 = tr1 @ [Sign tx (owner this)] in
           case transaction_sign v tr2 of
             Inl e \<Rightarrow> (tr2, Inl e)
           | Inr _ \<Rightarrow>
               (let tr3 = tr2 @ [Serialize tx] in
                case transaction_serialize v tr3 of
                  Inl e \<Rightarrow> (tr3, Inl e)
                | Inr bytes \<Rightarrow>
                    (let tr4 = tr3 @ [SendRawTransaction bytes] in
                     case sendRawTransaction v tr4 of
                       Inl e \<Rightarrow> (tr4, Inl e)
                     | Inr txId \<Rightarrow>
                         (let tr5 = tr4 @ [ConfirmTransaction txId] in
                          case confirmTransaction v tr5 of
                            Inl e \<Rightarrow> (tr5, Inl e)
                          | Inr _ \<Rightarrow> (tr5, Inr ()))))))"

text \<open>\<^verbatim>\<open>removeLiquidity\<close>: the \<^verbatim>\<open>catch\<close> prints the thrown value and throws it again.\<close>

definition removeLiquidity :: "rebalancer \<Rightarrow> venue \<Rightarrow> event list \<Rightarrow> event list \<times> (thrown + number \<times> number)" where
  "removeLiquidity this v tr =
     (let tr1 = tr @ [RemoveLiquidity (poolId this) ''100%'' (owner this)] in
      case liquidity_removeLiquidity v tr1 of
        Inl e \<Rightarrow> (tr1 @ [ConsoleError ''Error removing liquidity:'' e], Inl e)
      | Inr tx \<Rightarrow>
          (case signAndSend this v tx tr1 of
             (tr2, Inl e) \<Rightarrow> (tr2 @ [ConsoleError ''Error removing liquidity:'' e], Inl e)
           | (tr2, Inr _) \<Rightarrow> (tr2, Inr (initialSolAmount this, initialTokenAmount this))))"

text \<open>The object \<^verbatim>\<open>swapParams\<close> of \<^verbatim>\<open>swapTokens\<close>, as the event of the call.\<close>

definition swapParams :: "rebalancer \<Rightarrow> number \<Rightarrow> direction \<Rightarrow> event" where
  "swapParams this swapAmount dir =
     Swap (poolId this)
       (if dir = solToToken then PublicKey_default else tokenMint this)
       (if dir = solToToken then tokenMint this else PublicKey_default)
       swapAmount (owner this)"

definition swapTokens :: "rebalancer \<Rightarrow> venue \<Rightarrow> number \<Rightarrow> direction \<Rightarrow> event list \<Rightarrow> event list \<times> (thrown + number)" where
  "swapTokens this v swapAmount dir tr =
     (let tr1 = tr @ [swapParams this swapAmount dir] in
      case swap_swap v tr1 of
        Inl e \<Rightarrow> (tr1 @ [ConsoleError ''Error swapping tokens:'' e], Inl e)
      | Inr (tx, minAmountOut) \<Rightarrow>
          (case signAndSend this v tx tr1 of
             (tr2, Inl e) \<Rightarrow> (tr2 @ [ConsoleError ''Error swapping tokens:'' e], Inl e)
           | (tr2, Inr _) \<Rightarrow> (tr2, Inr minAmountOut)))"

definition addLiquidity :: "rebalancer \<Rightarrow> venue \<Rightarrow> number \<Rightarrow> number \<Rightarrow> event list \<Rightarrow> event list \<times> (thrown + unit)" where
  "addLiquidity this v solAmount tokenAmount tr =
     (let tr1 = tr @ [AddLiquidity (poolId this) solAmount tokenAmount (owner this)] in
      case liquidity_addLiquidity v tr1 of
        Inl e \<Rightarrow> (tr1 @ [ConsoleError ''Error adding liquidity:'' e], Inl e)
      | Inr tx \<Rightarrow>
          (case signAndSend this v tx tr1 of
             (tr2, Inl e) \<Rightarrow> (tr2 @ [ConsoleError ''Error adding liquidity:'' e], Inl e)
           | (tr2, Inr _) \<Rightarrow> (tr2, Inr ())))"

text \<open>
  The second half of \<^verbatim>\<open>rebalance\<close>, from \<^verbatim>\<open>// Determine rebalancing strategy\<close> to its
  end, as a function of the two amounts that the withdrawal returned. The sum
  \<^verbatim>\<open>totalValue\<close> is computed and never read.
\<close>

definition rebalance_strategy :: "rebalancer \<Rightarrow> venue \<Rightarrow> number \<Rightarrow> number \<Rightarrow> event list \<Rightarrow> event list \<times> (thrown + unit)" where
  "rebalance_strategy this v solAmount tokenAmount tr =
     (let targetSolAmount = initialSolAmount this;
          targetTokenAmount = initialTokenAmount this
      in if num_gt solAmount targetSolAmount then
           (let swapAmount = num_sub solAmount targetSolAmount in
            case swapTokens this v swapAmount solToToken tr of
              (tr1, Inl e) \<Rightarrow> (tr1, Inl e)
            | (tr1, Inr receivedTokens) \<Rightarrow>
                (case addLiquidity this v targetSolAmount (num_add receivedTokens tokenAmount) tr1 of
                   (tr2, Inl e) \<Rightarrow> (tr2, Inl e)
                 | (tr2, Inr _) \<Rightarrow> (tr2 @ [ConsoleLog ''Liquidity rebalanced successfully''], Inr ())))
         else
           (let swapAmount = num_sub tokenAmount targetTokenAmount in
            case swapTokens this v swapAmount tokenToSol tr of
              (tr1, Inl e) \<Rightarrow> (tr1, Inl e)
            | (tr1, Inr receivedSol) \<Rightarrow>
                (case addLiquidity this v (num_add receivedSol solAmount) targetTokenAmount tr1 of
                   (tr2, Inl e) \<Rightarrow> (tr2, Inl e)
                 | (tr2, Inr _) \<Rightarrow> (tr2 @ [ConsoleLog ''Liquidity rebalanced successfully''], Inr ()))))"

definition rebalance :: "rebalancer \<Rightarrow> venue \<Rightarrow> event list \<Rightarrow> event list \<times> (thrown + unit)" where
  "rebalance this v tr =
     (case checkPositionRange this v tr of
        (tr1, Inl e) \<Rightarrow> (tr1, Inl e)
      | (tr1, Inr isInRange) \<Rightarrow>
          if isInRange then
            (tr1 @ [ConsoleLog ''Position is within range. No rebalancing needed.''], Inr ())
          else
            (case removeLiquidity this v tr1 of
               (tr2, Inl e) \<Rightarrow> (tr2, Inl e)
             | (tr2, Inr (solAmount, tokenAmount)) \<Rightarrow>
                 rebalance_strategy this v solAmount tokenAmount tr2))"

section \<open>The range test of the specification\<close>

text \<open>
  The specification's own description of the range test, to compare the code with. A
  position holds the two target amounts and the pool identifier; a snapshot holds the
  current amounts, the base amount divided by the divisor of its smallest unit. The
  drift of an amount is the absolute difference to its target divided by the target,
  and \<open>isInRange\<close> holds when the drift of the base amount and the drift of the quote
  amount are both at most the tolerance. The arithmetic is the arithmetic of numbers.
\<close>

record Position =
  targetBaseAmount :: number
  targetQuoteAmount :: number
  poolIdentifier :: string

record PoolSnapshot =
  baseAmount :: number
  quoteAmount :: number

definition drift :: "number \<Rightarrow> number \<Rightarrow> number" where
  "drift current target = num_div (num_abs (num_sub current target)) target"

definition isInRange :: "PoolSnapshot \<Rightarrow> Position \<Rightarrow> number \<Rightarrow> bool" where
  "isInRange snapshot position tolerance =
     (num_le (drift (baseAmount snapshot) (targetBaseAmount position)) tolerance \<and>
      num_le (drift (quoteAmount snapshot) (targetQuoteAmount position)) tolerance)"



section \<open>The liquidity module and the entry point\<close>

text \<open>
  The class \<^verbatim>\<open>Liquidity\<close> of the liquidity module, a stand-in whose answers are fixed,
  with a connection on which every call succeeds: one pool of 5 SOL in lamports and
  5000000 token units, empty transactions, and \<^verbatim>\<open>minAmountOut: '0'\<close>.
\<close>

definition Liquidity :: venue where
  "Liquidity =
     \<lparr>fetchPoolById = (\<lambda>_. Inr (Some [\<lparr>liquidity1Amount = Fin 5000000000, liquidity2Amount = Fin 5000000\<rparr>])),
      liquidity_removeLiquidity = (\<lambda>_. Inr 0),
      swap_swap = (\<lambda>_. Inr (0, Fin 0)),
      liquidity_addLiquidity = (\<lambda>_. Inr 0),
      getLatestBlockhash = (\<lambda>_. Inr ()),
      transaction_sign = (\<lambda>_. Inr ()),
      transaction_serialize = (\<lambda>_. Inr 0),
      sendRawTransaction = (\<lambda>_. Inr 0),
      confirmTransaction = (\<lambda>_. Inr ())\<rparr>"

text \<open>
  The same venue with another answer to the pool query, with a swap that throws, and
  with a deposit that throws.
\<close>

definition Liquidity_with :: "PoolInfo list option \<Rightarrow> venue" where
  "Liquidity_with pools = Liquidity\<lparr>fetchPoolById := (\<lambda>_. Inr pools)\<rparr>"

definition Liquidity_swap_throws :: "thrown \<Rightarrow> venue" where
  "Liquidity_swap_throws e = Liquidity\<lparr>swap_swap := (\<lambda>_. Inl e)\<rparr>"

definition Liquidity_deposit_throws :: "thrown \<Rightarrow> venue" where
  "Liquidity_deposit_throws e = Liquidity\<lparr>liquidity_addLiquidity := (\<lambda>_. Inl e)\<rparr>"

text \<open>
  The configuration of \<^verbatim>\<open>main\<close>, with targets of 5 SOL and 5 tokens, and
  configurations whose SOL target is 0, whose token target is \<^verbatim>\<open>Infinity\<close>, and whose
  token target is \<^verbatim>\<open>NaN\<close>.
\<close>

definition main_rebalancer :: rebalancer where
  "main_rebalancer = constructor ''owner'' ''YOUR_RAYDIUM_POOL_ID'' (PublicKey ''TOKEN_MINT_ADDRESS'') (Fin 5) (Fin 5)"

definition zero_target_rebalancer :: rebalancer where
  "zero_target_rebalancer = constructor ''owner'' ''pool'' (PublicKey ''mint'') (Fin 0) (Fin 5)"

definition infinite_target_rebalancer :: rebalancer where
  "infinite_target_rebalancer = constructor ''owner'' ''pool'' (PublicKey ''mint'') (Fin 5) PosInf"

definition nan_target_rebalancer :: rebalancer where
  "nan_target_rebalancer = constructor ''owner'' ''pool'' (PublicKey ''mint'') (Fin 5) NaN"

section \<open>Reading a trace\<close>

text \<open>
  The withdrawals, the swaps and the deposits of a trace: the calls of
  \<^verbatim>\<open>raydium.liquidity.removeLiquidity\<close>, \<^verbatim>\<open>raydium.swap.swap\<close> and
  \<^verbatim>\<open>raydium.liquidity.addLiquidity\<close>.
\<close>

fun is_withdraw :: "event \<Rightarrow> bool" where
  "is_withdraw (RemoveLiquidity _ _ _) = True"
| "is_withdraw _ = False"

fun is_swap :: "event \<Rightarrow> bool" where
  "is_swap (Swap _ _ _ _ _) = True"
| "is_swap _ = False"

fun is_deposit :: "event \<Rightarrow> bool" where
  "is_deposit (AddLiquidity _ _ _ _) = True"
| "is_deposit _ = False"

fun is_operation :: "event \<Rightarrow> bool" where
  "is_operation e = (is_withdraw e \<or> is_swap e \<or> is_deposit e)"

section \<open>Rounding\<close>

text \<open>
  \<open>pow2\<close> is the power of 2 with an integer exponent, and \<open>floor_log2\<close> finds the
  binade of a positive rational.
\<close>

lemma pow2_powi: "pow2 k = 2 powi k"
  by (simp add: pow2_def power_int_def power_one_over inverse_eq_divide)

lemma pow2_pos: "0 < pow2 k"
  by (simp add: pow2_def)

lemma pow2_diff: "pow2 (a - b) = pow2 a / pow2 b"
  by (simp add: pow2_powi power_int_diff)

lemma pow2_double: "pow2 (k + 1) = 2 * pow2 k"
  by (simp add: pow2_powi power_int_add)

lemma pow2_half: "pow2 (k - 1) = pow2 k / 2"
  by (simp add: pow2_powi power_int_diff)

lemma pow2_bitlen:
  assumes "0 < n"
  shows "pow2 (bitlen n) / 2 \<le> of_int n" and "of_int n < pow2 (bitlen n)"
proof -
  have b: "2 ^ nat (bitlen n - 1) \<le> n" "n < 2 ^ nat (bitlen n)"
    using bitlen_bounds[OF assms] by simp_all
  have l: "0 \<le> bitlen n - 1"
    using assms by (simp add: bitlen_alt_def)
  have "(of_int (2 ^ nat (bitlen n - 1)) :: rat) \<le> of_int n"
    using b(1) by (simp only: of_int_le_iff)
  then have "pow2 (bitlen n - 1) \<le> of_int n"
    using l by (simp add: pow2_def)
  then show "pow2 (bitlen n) / 2 \<le> of_int n"
    by (simp add: pow2_half)
  have "(of_int n :: rat) < of_int (2 ^ nat (bitlen n))"
    using b(2) by (simp only: of_int_less_iff)
  then show "of_int n < pow2 (bitlen n)"
    using l by (simp add: pow2_def)
qed

lemma floor_log2_bounds:
  assumes "0 < x"
  shows "pow2 (floor_log2 x) \<le> x \<and> x < pow2 (floor_log2 x + 1)"
proof -
  obtain p q where pq: "quotient_of x = (p, q)" by (cases "quotient_of x")
  then have q: "0 < q" and x: "x = of_int p / of_int q"
    using quotient_of_denom_pos[OF pq] quotient_of_div[OF pq] by simp_all
  with assms have p: "0 < p"
    by (simp add: zero_less_divide_iff)
  let ?k = "bitlen p - bitlen q"
  note P = pow2_bitlen[OF p] and Q = pow2_bitlen[OF q]
  have qpos: "(0::rat) < of_int q" using q by simp
  let ?A = "pow2 (bitlen p)" and ?B = "pow2 (bitlen q)"
  have A: "0 < ?A" and B: "0 < ?B" by (rule pow2_pos)+
  have km: "pow2 (?k - 1) = ?A / ?B / 2"
    using pow2_diff[of ?k 1] pow2_diff[of "bitlen p" "bitlen q"] by (simp add: pow2_def[of 1])
  have kp: "pow2 (?k + 1) = 2 * (?A / ?B)"
    using pow2_double[of ?k] pow2_diff[of "bitlen p" "bitlen q"] by simp
  have low: "pow2 (?k - 1) \<le> x"
  proof -
    have "?A / ?B / 2 * of_int q \<le> ?A / ?B / 2 * ?B"
      using Q(2) A B by (intro mult_left_mono) simp_all
    also have "\<dots> = ?A / 2"
      using B by simp
    also have "\<dots> \<le> of_int p" by (rule P(1))
    finally show ?thesis
      using qpos by (simp add: x km pos_le_divide_eq)
  qed
  have high: "x < pow2 (?k + 1)"
  proof -
    have "of_int p < ?A" by (rule P(2))
    also have "\<dots> = 2 * (?A / ?B) * (?B / 2)"
      using B by simp
    also have "\<dots> \<le> 2 * (?A / ?B) * of_int q"
      using Q(1) A B by (intro mult_left_mono) simp_all
    finally show ?thesis
      using qpos by (simp add: x kp pos_divide_less_eq)
  qed
  show ?thesis
  proof (cases "pow2 ?k \<le> x")
    case True
    then show ?thesis using high by (simp add: floor_log2_def pq)
  next
    case False
    then have "x < pow2 ?k" by simp
    then show ?thesis using low False by (simp add: floor_log2_def pq)
  qed
qed

lemma pow2_mono: "a \<le> b \<Longrightarrow> pow2 a \<le> pow2 b"
  by (simp add: pow2_powi power_int_increasing)

lemma round_half_even_error: "\<bar>of_int (round_half_even z) - z\<bar> \<le> 1/2"
proof -
  have "of_int \<lfloor>z\<rfloor> \<le> z" "z < of_int \<lfloor>z\<rfloor> + 1"
    by linarith+
  then show ?thesis
    unfolding round_half_even_def Let_def by (simp add: abs_if) linarith
qed

lemma round_half_even_lower: "of_int n \<le> z \<Longrightarrow> n \<le> round_half_even z"
proof -
  assume "of_int n \<le> z"
  then have "n \<le> \<lfloor>z\<rfloor>" by (simp add: le_floor_iff)
  then show ?thesis
    by (auto simp: round_half_even_def Let_def)
qed

lemma round_half_even_upper: "z \<le> of_int n \<Longrightarrow> round_half_even z \<le> n"
proof -
  assume h: "z \<le> of_int n"
  show ?thesis
  proof (cases "z = of_int n")
    case True
    then show ?thesis by (simp add: round_half_even_def)
  next
    case False
    with h have "z < of_int n" by simp
    then have "\<lfloor>z\<rfloor> < n" by (simp add: floor_less_iff)
    then show ?thesis
      by (auto simp: round_half_even_def Let_def)
  qed
qed

text \<open>
  The significand of a rounded number: for \<open>x\<close> other than 0, with the unit \<open>2 ^ e\<close> in
  the last place of \<open>x\<close> and the significand \<open>m\<close> that \<open>round64\<close> computes, \<open>m * 2 ^ e\<close>
  is at most half a unit away from \<open>\<bar>x\<bar>\<close>, \<open>m\<close> is at most \<open>2 ^ 53\<close>, and at least
  \<open>2 ^ 52\<close> unless the number is subnormal.
\<close>

lemma round64_significand:
  fixes x :: rat
  assumes "x \<noteq> 0"
  defines "e \<equiv> max (floor_log2 \<bar>x\<bar> - 52) (- 1074)"
  defines "m \<equiv> round_half_even (\<bar>x\<bar> / pow2 e)"
  shows "\<bar>of_int m * pow2 e - \<bar>x\<bar>\<bar> \<le> pow2 e / 2"
    and "0 \<le> m" and "m \<le> 2 ^ 53"
    and "- 1074 < e \<Longrightarrow> 2 ^ 52 \<le> m"
proof -
  let ?a = "\<bar>x\<bar>" and ?k = "floor_log2 \<bar>x\<bar>"
  have a: "0 < ?a" using assms(1) by simp
  have pe: "0 < pow2 e" by (rule pow2_pos)
  have k: "pow2 ?k \<le> ?a" "?a < pow2 (?k + 1)"
    using floor_log2_bounds[OF a] by simp_all
  have "\<bar>of_int m - ?a / pow2 e\<bar> \<le> 1/2"
    unfolding m_def by (rule round_half_even_error)
  then have "\<bar>of_int m - ?a / pow2 e\<bar> * pow2 e \<le> 1/2 * pow2 e"
    using pe by (intro mult_right_mono) simp_all
  moreover have "\<bar>of_int m - ?a / pow2 e\<bar> * pow2 e = \<bar>of_int m * pow2 e - ?a\<bar>"
  proof -
    have "(of_int m - ?a / pow2 e) * pow2 e = of_int m * pow2 e - ?a"
      using pe by (simp add: left_diff_distrib)
    then have "\<bar>of_int m * pow2 e - ?a\<bar> = \<bar>of_int m - ?a / pow2 e\<bar> * \<bar>pow2 e\<bar>"
      by (simp only: abs_mult[symmetric])
    then show ?thesis
      using pe by (simp only: abs_of_pos)
  qed
  ultimately show "\<bar>of_int m * pow2 e - ?a\<bar> \<le> pow2 e / 2"
    by simp
  have "(of_int 0 :: rat) \<le> ?a / pow2 e"
    using a pe by simp
  then show "0 \<le> m"
    unfolding m_def by (rule round_half_even_lower)
  have "pow2 (?k + 1) \<le> pow2 (e + 53)"
    by (rule pow2_mono) (simp add: e_def)
  also have "\<dots> = 2 ^ 53 * pow2 e"
    by (simp add: pow2_powi power_int_add)
  finally have "?a / pow2 e \<le> of_int (2 ^ 53)"
    using k(2) pe by (simp add: pos_divide_le_eq)
  then show "m \<le> 2 ^ 53"
    unfolding m_def by (rule round_half_even_upper)
  assume "- 1074 < e"
  then have e: "e = ?k - 52" by (simp add: e_def max_def split: if_splits)
  have "pow2 ?k = 2 ^ 52 * pow2 e"
    by (simp add: e pow2_powi power_int_diff)
  then have "of_int (2 ^ 52) \<le> ?a / pow2 e"
    using k(1) pe by (simp add: pos_le_divide_eq)
  then show "2 ^ 52 \<le> m"
    unfolding m_def by (rule round_half_even_lower)
qed

text \<open>
  The test for an infinity in \<open>round64\<close> is the test that the rounded value has reached
  \<open>2 ^ 1024\<close>.
\<close>

lemma round64_overflow:
  fixes x :: rat
  assumes "x \<noteq> 0"
  defines "e \<equiv> max (floor_log2 \<bar>x\<bar> - 52) (- 1074)"
  defines "m \<equiv> round_half_even (\<bar>x\<bar> / pow2 e)"
  shows "(971 < e \<or> (e = 971 \<and> 2 ^ 53 \<le> m)) = (pow2 1024 \<le> of_int m * pow2 e)"
proof -
  note sig = round64_significand[OF assms(1), folded e_def, folded m_def]
  have pe: "0 < pow2 e" by (rule pow2_pos)
  have top: "pow2 1024 = 2 ^ 53 * pow2 971"
    by (simp add: pow2_def)
  show ?thesis
  proof (cases "971 < e")
    case True
    then have "2 ^ 52 \<le> m" by (intro sig(4)) simp
    then have m: "(2 ^ 52 :: rat) \<le> of_int m"
      by (metis of_int_le_iff of_int_numeral of_int_power)
    have "pow2 1024 = 2 ^ 52 * pow2 972"
      by (simp add: pow2_def)
    also have "\<dots> \<le> 2 ^ 52 * pow2 e"
      using True by (intro mult_left_mono pow2_mono) simp_all
    also have "\<dots> \<le> of_int m * pow2 e"
      using m pe by (intro mult_right_mono) simp_all
    finally show ?thesis using True by simp
  next
    case False
    show ?thesis
    proof (cases "e = 971")
      case True
      have "(2 ^ 53 \<le> m) = ((2 ^ 53 :: rat) \<le> of_int m)"
        by (metis of_int_le_iff of_int_numeral of_int_power)
      also have "\<dots> = (2 ^ 53 * pow2 971 \<le> of_int m * pow2 971)"
        using pow2_pos[of 971] by simp
      finally show ?thesis using True by (simp add: top)
    next
      case ne: False
      with False have "e \<le> 970" by simp
      have "(of_int m :: rat) \<le> 2 ^ 53"
        using sig(3) by (metis of_int_le_iff of_int_numeral of_int_power)
      then have "of_int m * pow2 e \<le> 2 ^ 53 * pow2 e"
        using pe by (intro mult_right_mono) simp_all
      also have "\<dots> \<le> 2 ^ 53 * pow2 970"
        using \<open>e \<le> 970\<close> by (intro mult_left_mono pow2_mono) simp_all
      also have "\<dots> < pow2 1024"
        by (simp add: pow2_def)
      finally show ?thesis using False ne by simp
    qed
  qed
qed

text \<open>
  Some roundings: the literals 0.1 and 1.1, an integer, and three ties, which go to the
  even significand.
\<close>

lemma round64_examples:
  "round64 (1/10) = Fin (3602879701896397 / 36028797018963968)"
  "round64 (11/10) = Fin (2476979795053773 / 2251799813685248)"
  "round64 5000000000 = Fin 5000000000"
  "round64 (1 + 1 / 2 ^ 53) = Fin 1"
  "round64 (1 + 3 / 2 ^ 53) = Fin (1 + 4 / 2 ^ 53)"
  "round64 (- (1 + 3 / 2 ^ 53)) = Fin (- (1 + 4 / 2 ^ 53))"
  by code_simp+

text \<open>
  Some operations: \<^verbatim>\<open>0.1 + 0.7\<close> is \<^verbatim>\<open>0.7999999999999999\<close>, \<^verbatim>\<open>1.1 - 1\<close> is
  \<^verbatim>\<open>0.10000000000000009\<close>, and \<^verbatim>\<open>1 / 3\<close> is \<^verbatim>\<open>0.3333333333333333\<close>.
\<close>

lemma number_examples:
  "num_add (round64 (1/10)) (round64 (7/10)) = round64 (7999999999999999 / 10000000000000000)"
  "num_sub (round64 (11/10)) (Fin 1) = round64 (10000000000000009 / 100000000000000000)"
  "num_div (Fin 1) (Fin 3) = round64 (3333333333333333 / 10000000000000000)"
  by code_simp+

lemma literal_0_1_value: "literal_0_1 = Fin (3602879701896397 / 36028797018963968)"
  by code_simp


section \<open>Arithmetic on numbers\<close>

lemma num_gt_irrefl: "\<not> num_gt a a"
  by (simp add: num_gt_def)

lemma num_add_commute: "num_add a b = num_add b a"
  by (cases a; cases b) (auto simp: num_add_def mk_zero_def add.commute)

lemma num_sub_self: "is_finite a \<Longrightarrow> num_sub a a = Fin 0"
  by (cases a) (simp_all add: num_sub_def mk_zero_def)









lemma drift_zero_target: "\<not> num_le (num_div (num_abs x) (Fin 0)) literal_0_1"
  by (cases x) (simp_all add: literal_0_1_value num_div_def num_le_def mk_inf_def)

section \<open>What each operation adds to the trace\<close>

lemma signAndSend_filter:
  assumes "signAndSend this v tx tr = (tr', r)"
    and "\<not> P GetLatestBlockhash" "\<And>t w. \<not> P (Sign t w)" "\<And>t. \<not> P (Serialize t)"
    "\<And>t. \<not> P (SendRawTransaction t)" "\<And>t. \<not> P (ConfirmTransaction t)"
  shows "filter P tr' = filter P tr"
  using assms by (auto simp: signAndSend_def Let_def split: sum.splits)

lemma checkPositionRange_trace:
  "fst (checkPositionRange this v tr) = tr @ [FetchPoolById (poolId this)]"
  by (simp add: checkPositionRange_def Let_def split: sum.splits option.splits list.splits)

lemma checkPositionRange_found:
  assumes "fetchPoolById v (tr @ [FetchPoolById (poolId this)]) = Inr (Some (pool # pools))"
  shows "checkPositionRange this v tr =
     (tr @ [FetchPoolById (poolId this)],
      Inr (num_le (num_div (num_abs (num_sub (num_div (liquidity1Amount pool) LAMPORTS_PER_SOL)
                                      (initialSolAmount this))) (initialSolAmount this)) literal_0_1 \<and>
           num_le (num_div (num_abs (num_sub (liquidity2Amount pool) (initialTokenAmount this)))
                           (initialTokenAmount this)) literal_0_1))"
  using assms by (simp add: checkPositionRange_def Let_def)


lemma checkPositionRange_swaps:
  "checkPositionRange this v tr = (tr', r) \<Longrightarrow> filter is_swap tr' = filter is_swap tr"
  using checkPositionRange_trace[of this v tr] by simp

lemma checkPositionRange_deposits:
  "checkPositionRange this v tr = (tr', r) \<Longrightarrow> filter is_deposit tr' = filter is_deposit tr"
  using checkPositionRange_trace[of this v tr] by simp

lemma removeLiquidity_result:
  "removeLiquidity this v tr = (tr', Inr w) \<Longrightarrow> w = (initialSolAmount this, initialTokenAmount this)"
  by (auto simp: removeLiquidity_def Let_def split: sum.splits prod.splits)

lemma removeLiquidity_filter:
  assumes "removeLiquidity this v tr = (tr', r)"
    and "\<not> P GetLatestBlockhash" "\<And>t w. \<not> P (Sign t w)" "\<And>t. \<not> P (Serialize t)"
    "\<And>t. \<not> P (SendRawTransaction t)" "\<And>t. \<not> P (ConfirmTransaction t)"
    "\<And>m e. \<not> P (ConsoleError m e)"
  shows "filter P tr' = filter P (tr @ [RemoveLiquidity (poolId this) ''100%'' (owner this)])"
  using assms
  by (auto simp: removeLiquidity_def Let_def split: sum.splits prod.splits
      dest!: signAndSend_filter[where P=P])

lemma removeLiquidity_withdraws:
  "removeLiquidity this v tr = (tr', r) \<Longrightarrow>
     filter is_withdraw tr' = filter is_withdraw tr @ [RemoveLiquidity (poolId this) ''100%'' (owner this)]"
  by (drule removeLiquidity_filter[where P=is_withdraw]) simp_all

lemma removeLiquidity_swaps:
  "removeLiquidity this v tr = (tr', r) \<Longrightarrow> filter is_swap tr' = filter is_swap tr"
  by (drule removeLiquidity_filter[where P=is_swap]) simp_all

lemma removeLiquidity_deposits:
  "removeLiquidity this v tr = (tr', r) \<Longrightarrow> filter is_deposit tr' = filter is_deposit tr"
  by (drule removeLiquidity_filter[where P=is_deposit]) simp_all

lemma swapTokens_filter:
  assumes "swapTokens this v amt dir tr = (tr', r)"
    and "\<not> P GetLatestBlockhash" "\<And>t w. \<not> P (Sign t w)" "\<And>t. \<not> P (Serialize t)"
    "\<And>t. \<not> P (SendRawTransaction t)" "\<And>t. \<not> P (ConfirmTransaction t)"
    "\<And>m e. \<not> P (ConsoleError m e)"
  shows "filter P tr' = filter P (tr @ [swapParams this amt dir])"
  using assms
  by (auto simp: swapTokens_def Let_def split: sum.splits prod.splits
      dest!: signAndSend_filter[where P=P])

lemma swapTokens_withdraws:
  "swapTokens this v amt dir tr = (tr', r) \<Longrightarrow> filter is_withdraw tr' = filter is_withdraw tr"
  by (drule swapTokens_filter[where P=is_withdraw]) (simp_all add: swapParams_def)

lemma swapTokens_swaps:
  "swapTokens this v amt dir tr = (tr', r) \<Longrightarrow> filter is_swap tr' = filter is_swap tr @ [swapParams this amt dir]"
  by (drule swapTokens_filter[where P=is_swap]) (simp_all add: swapParams_def)

lemma swapTokens_deposits:
  "swapTokens this v amt dir tr = (tr', r) \<Longrightarrow> filter is_deposit tr' = filter is_deposit tr"
  by (drule swapTokens_filter[where P=is_deposit]) (simp_all add: swapParams_def)

lemma swapTokens_fails_last:
  "swapTokens this v amt dir tr = (tr', Inl e) \<Longrightarrow> last tr' = ConsoleError ''Error swapping tokens:'' e"
  by (auto simp: swapTokens_def Let_def split: sum.splits prod.splits)

lemma addLiquidity_filter:
  assumes "addLiquidity this v a b tr = (tr', r)"
    and "\<not> P GetLatestBlockhash" "\<And>t w. \<not> P (Sign t w)" "\<And>t. \<not> P (Serialize t)"
    "\<And>t. \<not> P (SendRawTransaction t)" "\<And>t. \<not> P (ConfirmTransaction t)"
    "\<And>m e. \<not> P (ConsoleError m e)"
  shows "filter P tr' = filter P (tr @ [AddLiquidity (poolId this) a b (owner this)])"
  using assms
  by (auto simp: addLiquidity_def Let_def split: sum.splits prod.splits
      dest!: signAndSend_filter[where P=P])

lemma addLiquidity_withdraws:
  "addLiquidity this v a b tr = (tr', r) \<Longrightarrow> filter is_withdraw tr' = filter is_withdraw tr"
  by (drule addLiquidity_filter[where P=is_withdraw]) simp_all

lemma addLiquidity_swaps:
  "addLiquidity this v a b tr = (tr', r) \<Longrightarrow> filter is_swap tr' = filter is_swap tr"
  by (drule addLiquidity_filter[where P=is_swap]) simp_all

lemma addLiquidity_deposits:
  "addLiquidity this v a b tr = (tr', r) \<Longrightarrow>
     filter is_deposit tr' = filter is_deposit tr @ [AddLiquidity (poolId this) a b (owner this)]"
  by (drule addLiquidity_filter[where P=is_deposit]) simp_all

lemma rebalance_strategy_withdraws:
  "filter is_withdraw (fst (rebalance_strategy this v sol tok tr)) = filter is_withdraw tr"
  by (auto simp: rebalance_strategy_def Let_def split: prod.splits sum.splits
      dest!: swapTokens_withdraws addLiquidity_withdraws)

lemma rebalance_strategy_swaps:
  "filter is_swap (fst (rebalance_strategy this v sol tok tr)) =
     filter is_swap tr @
       [if num_gt sol (initialSolAmount this)
        then swapParams this (num_sub sol (initialSolAmount this)) solToToken
        else swapParams this (num_sub tok (initialTokenAmount this)) tokenToSol]"
  by (auto simp: rebalance_strategy_def Let_def split: prod.splits sum.splits
      dest!: swapTokens_swaps addLiquidity_swaps)

lemma rebalance_strategy_deposits_sol:
  "num_gt sol (initialSolAmount this) \<Longrightarrow>
   swapTokens this v (num_sub sol (initialSolAmount this)) solToToken tr = (tr1, Inr out) \<Longrightarrow>
   filter is_deposit (fst (rebalance_strategy this v sol tok tr)) =
     filter is_deposit tr @ [AddLiquidity (poolId this) (initialSolAmount this) (num_add out tok) (owner this)]"
  by (auto simp: rebalance_strategy_def Let_def split: prod.splits sum.splits
      dest!: swapTokens_deposits addLiquidity_deposits)

lemma rebalance_strategy_deposits_token:
  "\<not> num_gt sol (initialSolAmount this) \<Longrightarrow>
   swapTokens this v (num_sub tok (initialTokenAmount this)) tokenToSol tr = (tr1, Inr out) \<Longrightarrow>
   filter is_deposit (fst (rebalance_strategy this v sol tok tr)) =
     filter is_deposit tr @ [AddLiquidity (poolId this) (num_add out sol) (initialTokenAmount this) (owner this)]"
  by (auto simp: rebalance_strategy_def Let_def split: prod.splits sum.splits
      dest!: swapTokens_deposits addLiquidity_deposits)

lemma rebalance_strategy_swap_fails:
  "\<not> num_gt sol (initialSolAmount this) \<Longrightarrow>
   swapTokens this v (num_sub tok (initialTokenAmount this)) tokenToSol tr = (tr1, Inl e) \<Longrightarrow>
   rebalance_strategy this v sol tok tr = (tr1, Inl e)"
  by (simp add: rebalance_strategy_def Let_def)


lemma rebalance_out_of_range:
  assumes "checkPositionRange this v tr = (tr1, Inr False)"
  shows "rebalance this v tr =
     (case removeLiquidity this v tr1 of
        (tr2, Inl e) \<Rightarrow> (tr2, Inl e)
      | (tr2, Inr w) \<Rightarrow> rebalance_strategy this v (initialSolAmount this) (initialTokenAmount this) tr2)"
  using assms
  by (auto simp: rebalance_def split: prod.splits sum.splits dest: removeLiquidity_result)

section \<open>The stand-in venue, evaluated\<close>

lemma Liquidity_simps:
  "fetchPoolById Liquidity tr = Inr (Some [\<lparr>liquidity1Amount = Fin 5000000000, liquidity2Amount = Fin 5000000\<rparr>])"
  "liquidity_removeLiquidity Liquidity tr = Inr 0"
  "swap_swap Liquidity tr = Inr (0, Fin 0)"
  "liquidity_addLiquidity Liquidity tr = Inr 0"
  "getLatestBlockhash Liquidity tr = Inr ()"
  "transaction_sign Liquidity tr = Inr ()"
  "transaction_serialize Liquidity tr = Inr 0"
  "sendRawTransaction Liquidity tr = Inr 0"
  "confirmTransaction Liquidity tr = Inr ()"
  by (simp_all add: Liquidity_def)

lemma Liquidity_with_simps:
  "fetchPoolById (Liquidity_with pools) tr = Inr pools"
  "liquidity_removeLiquidity (Liquidity_with pools) tr = Inr 0"
  "swap_swap (Liquidity_with pools) tr = Inr (0, Fin 0)"
  "liquidity_addLiquidity (Liquidity_with pools) tr = Inr 0"
  "getLatestBlockhash (Liquidity_with pools) tr = Inr ()"
  "transaction_sign (Liquidity_with pools) tr = Inr ()"
  "transaction_serialize (Liquidity_with pools) tr = Inr 0"
  "sendRawTransaction (Liquidity_with pools) tr = Inr 0"
  "confirmTransaction (Liquidity_with pools) tr = Inr ()"
  by (simp_all add: Liquidity_with_def Liquidity_def)

lemma Liquidity_swap_throws_simps:
  "fetchPoolById (Liquidity_swap_throws e) tr = Inr (Some [\<lparr>liquidity1Amount = Fin 5000000000, liquidity2Amount = Fin 5000000\<rparr>])"
  "liquidity_removeLiquidity (Liquidity_swap_throws e) tr = Inr 0"
  "swap_swap (Liquidity_swap_throws e) tr = Inl e"
  "liquidity_addLiquidity (Liquidity_swap_throws e) tr = Inr 0"
  "getLatestBlockhash (Liquidity_swap_throws e) tr = Inr ()"
  "transaction_sign (Liquidity_swap_throws e) tr = Inr ()"
  "transaction_serialize (Liquidity_swap_throws e) tr = Inr 0"
  "sendRawTransaction (Liquidity_swap_throws e) tr = Inr 0"
  "confirmTransaction (Liquidity_swap_throws e) tr = Inr ()"
  by (simp_all add: Liquidity_swap_throws_def Liquidity_def)

lemma Liquidity_deposit_throws_simps:
  "fetchPoolById (Liquidity_deposit_throws e) tr = Inr (Some [\<lparr>liquidity1Amount = Fin 5000000000, liquidity2Amount = Fin 5000000\<rparr>])"
  "liquidity_removeLiquidity (Liquidity_deposit_throws e) tr = Inr 0"
  "swap_swap (Liquidity_deposit_throws e) tr = Inr (0, Fin 0)"
  "liquidity_addLiquidity (Liquidity_deposit_throws e) tr = Inl e"
  "getLatestBlockhash (Liquidity_deposit_throws e) tr = Inr ()"
  "transaction_sign (Liquidity_deposit_throws e) tr = Inr ()"
  "transaction_serialize (Liquidity_deposit_throws e) tr = Inr 0"
  "sendRawTransaction (Liquidity_deposit_throws e) tr = Inr 0"
  "confirmTransaction (Liquidity_deposit_throws e) tr = Inr ()"
  by (simp_all add: Liquidity_deposit_throws_def Liquidity_def)

lemma main_rebalancer_simps:
  "owner main_rebalancer = ''owner''"
  "poolId main_rebalancer = ''YOUR_RAYDIUM_POOL_ID''"
  "tokenMint main_rebalancer = PublicKey ''TOKEN_MINT_ADDRESS''"
  "initialSolAmount main_rebalancer = Fin 5"
  "initialTokenAmount main_rebalancer = Fin 5"
  by (simp_all add: main_rebalancer_def constructor_def)

lemma zero_target_rebalancer_simps:
  "owner zero_target_rebalancer = ''owner''"
  "poolId zero_target_rebalancer = ''pool''"
  "tokenMint zero_target_rebalancer = PublicKey ''mint''"
  "initialSolAmount zero_target_rebalancer = Fin 0"
  "initialTokenAmount zero_target_rebalancer = Fin 5"
  by (simp_all add: zero_target_rebalancer_def constructor_def)

lemma infinite_target_rebalancer_simps:
  "owner infinite_target_rebalancer = ''owner''"
  "poolId infinite_target_rebalancer = ''pool''"
  "tokenMint infinite_target_rebalancer = PublicKey ''mint''"
  "initialSolAmount infinite_target_rebalancer = Fin 5"
  "initialTokenAmount infinite_target_rebalancer = PosInf"
  by (simp_all add: infinite_target_rebalancer_def constructor_def)

lemma nan_target_rebalancer_simps:
  "owner nan_target_rebalancer = ''owner''"
  "poolId nan_target_rebalancer = ''pool''"
  "tokenMint nan_target_rebalancer = PublicKey ''mint''"
  "initialSolAmount nan_target_rebalancer = Fin 5"
  "initialTokenAmount nan_target_rebalancer = NaN"
  by (simp_all add: nan_target_rebalancer_def constructor_def)

lemma signAndSend_succeeds:
  assumes "\<And>tr. getLatestBlockhash v tr = Inr ()" "\<And>tr. transaction_sign v tr = Inr ()"
    "\<And>tr. transaction_serialize v tr = Inr 0" "\<And>tr. sendRawTransaction v tr = Inr 0"
    "\<And>tr. confirmTransaction v tr = Inr ()"
  shows "signAndSend this v tx tr =
     (tr @ [GetLatestBlockhash, Sign tx (owner this), Serialize tx, SendRawTransaction 0,
            ConfirmTransaction 0], Inr ())"
  by (simp add: signAndSend_def assms)

lemma signAndSend_Liquidity:
  "signAndSend this Liquidity tx tr =
     (tr @ [GetLatestBlockhash, Sign tx (owner this), Serialize tx, SendRawTransaction 0,
            ConfirmTransaction 0], Inr ())"
  by (rule signAndSend_succeeds) (simp_all add: Liquidity_simps)

lemma removeLiquidity_Liquidity:
  "removeLiquidity this Liquidity tr =
     (tr @ [RemoveLiquidity (poolId this) ''100%'' (owner this), GetLatestBlockhash,
            Sign 0 (owner this), Serialize 0, SendRawTransaction 0, ConfirmTransaction 0],
      Inr (initialSolAmount this, initialTokenAmount this))"
  by (simp add: removeLiquidity_def Liquidity_simps signAndSend_Liquidity)

lemma swapTokens_Liquidity:
  "swapTokens this Liquidity amt dir tr =
     (tr @ [swapParams this amt dir, GetLatestBlockhash, Sign 0 (owner this), Serialize 0,
            SendRawTransaction 0, ConfirmTransaction 0], Inr (Fin 0))"
  by (simp add: swapTokens_def Liquidity_simps signAndSend_Liquidity)

lemma addLiquidity_Liquidity:
  "addLiquidity this Liquidity a b tr =
     (tr @ [AddLiquidity (poolId this) a b (owner this), GetLatestBlockhash, Sign 0 (owner this),
            Serialize 0, SendRawTransaction 0, ConfirmTransaction 0], Inr ())"
  by (simp add: addLiquidity_def Liquidity_simps signAndSend_Liquidity)

text \<open>
  The arithmetic of the examples, each operation rounded, and the range check of the
  configuration of \<^verbatim>\<open>main\<close> on the pool of the liquidity module.
\<close>

lemma example_arithmetic:
  "num_gt (Fin 6) (Fin 5)"
  "num_sub (Fin 6) (Fin 5) = Fin 1"
  "num_add (Fin 4) (Fin 0) = Fin 4"
  "num_add (Fin 0) (Fin 5) = Fin 5"
  "num_add (Fin 0) (Fin 0) = Fin 0"
  "num_div (Fin 5000000000) LAMPORTS_PER_SOL = Fin 5"
  "drift (Fin 5) (Fin 5) = Fin 0"
  "drift (Fin 5000000) (Fin 5) = Fin 999999"
  "num_le (Fin 0) literal_0_1"
  "\<not> num_le (Fin 999999) literal_0_1"
  by code_simp+

lemma checkPositionRange_main_out_of_range:
  assumes "\<And>tr. fetchPoolById v tr =
     Inr (Some [\<lparr>liquidity1Amount = Fin 5000000000, liquidity2Amount = Fin 5000000\<rparr>])"
  shows "checkPositionRange main_rebalancer v [] = ([FetchPoolById ''YOUR_RAYDIUM_POOL_ID''], Inr False)"
proof -
  have "\<not> num_le (num_div (num_abs (num_sub (Fin 5000000) (Fin 5))) (Fin 5)) literal_0_1"
    by code_simp
  then show ?thesis
    by (simp add: checkPositionRange_def assms main_rebalancer_simps)
qed

text \<open>
  At the edge of the tolerance the rounding of each operation decides. A pool of
  1.1 SOL against a target of 1 is out of range, since 1.1 is a little more than 11/10
  as a binary64 number; so is a pool of 7.7 SOL against a target of 7. A pool of 5.5 SOL
  against a target of 5 is in range, and so is a token amount of 8099999999999999
  against a target of 8999999999999999, whose quotient is rounded down to the literal.
\<close>

lemma checkPositionRange_rounding:
  "checkPositionRange (constructor ''owner'' ''pool'' (PublicKey ''mint'') (Fin 1) (Fin 5))
     (Liquidity_with (Some [\<lparr>liquidity1Amount = Fin 1100000000, liquidity2Amount = Fin 5\<rparr>])) [] =
     ([FetchPoolById ''pool''], Inr False)"
  "checkPositionRange (constructor ''owner'' ''pool'' (PublicKey ''mint'') (Fin 7) (Fin 5))
     (Liquidity_with (Some [\<lparr>liquidity1Amount = Fin 7700000000, liquidity2Amount = Fin 5\<rparr>])) [] =
     ([FetchPoolById ''pool''], Inr False)"
  "checkPositionRange (constructor ''owner'' ''pool'' (PublicKey ''mint'') (Fin 5) (Fin 5))
     (Liquidity_with (Some [\<lparr>liquidity1Amount = Fin 5500000000, liquidity2Amount = Fin 5\<rparr>])) [] =
     ([FetchPoolById ''pool''], Inr True)"
  "checkPositionRange (constructor ''owner'' ''pool'' (PublicKey ''mint'') (Fin 5) (Fin 8999999999999999))
     (Liquidity_with (Some [\<lparr>liquidity1Amount = Fin 5000000000, liquidity2Amount = Fin 8099999999999999\<rparr>])) [] =
     ([FetchPoolById ''pool''], Inr True)"
  by code_simp+

section \<open>The rebalancing strategy\<close>

text \<open>
  Claim C1. Whatever the two withdrawn amounts and the targets are, the strategy asks
  for exactly one swap. When the SOL amount is greater than its target, the swap is
  from SOL to the token, of the SOL amount minus its target, and once it has returned
  the deposit is of the SOL target and of the token amount plus what the swap returned.
  Otherwise the swap is from the token to SOL, of the token amount minus its target,
  and the deposit is of the SOL amount plus what the swap returned and of the token
  target. With targets of 5 and 5 and amounts of 6 and 4, the swap is from SOL to the
  token, of 1 (the witness).
\<close>

theorem rebalance_strategy_decision_rule:
  "(num_gt sol (initialSolAmount this) \<longrightarrow>
      filter is_swap (fst (rebalance_strategy this v sol tok tr)) =
        filter is_swap tr @ [swapParams this (num_sub sol (initialSolAmount this)) solToToken] \<and>
      (\<forall>tr1 out. swapTokens this v (num_sub sol (initialSolAmount this)) solToToken tr = (tr1, Inr out) \<longrightarrow>
         filter is_deposit (fst (rebalance_strategy this v sol tok tr)) =
           filter is_deposit tr @
             [AddLiquidity (poolId this) (initialSolAmount this) (num_add tok out) (owner this)])) \<and>
   (\<not> num_gt sol (initialSolAmount this) \<longrightarrow>
      filter is_swap (fst (rebalance_strategy this v sol tok tr)) =
        filter is_swap tr @ [swapParams this (num_sub tok (initialTokenAmount this)) tokenToSol] \<and>
      (\<forall>tr1 out. swapTokens this v (num_sub tok (initialTokenAmount this)) tokenToSol tr = (tr1, Inr out) \<longrightarrow>
         filter is_deposit (fst (rebalance_strategy this v sol tok tr)) =
           filter is_deposit tr @
             [AddLiquidity (poolId this) (num_add sol out) (initialTokenAmount this) (owner this)]))"
  by (simp add: rebalance_strategy_swaps rebalance_strategy_deposits_sol rebalance_strategy_deposits_token
      num_add_commute[of tok] num_add_commute[of sol])

theorem rebalance_strategy_decision_rule_witness:
  "num_gt (Fin 6) (initialSolAmount main_rebalancer) \<and>
   filter is_swap (fst (rebalance_strategy main_rebalancer Liquidity (Fin 6) (Fin 4) [])) =
     [swapParams main_rebalancer (Fin 1) solToToken] \<and>
   swapTokens main_rebalancer Liquidity (Fin 1) solToToken [] =
     ([swapParams main_rebalancer (Fin 1) solToToken, GetLatestBlockhash, Sign 0 ''owner'', Serialize 0,
       SendRawTransaction 0, ConfirmTransaction 0], Inr (Fin 0)) \<and>
   filter is_deposit (fst (rebalance_strategy main_rebalancer Liquidity (Fin 6) (Fin 4) [])) =
     [AddLiquidity ''YOUR_RAYDIUM_POOL_ID'' (Fin 5) (Fin 4) ''owner'']"
  using rebalance_strategy_decision_rule [of "Fin 6" main_rebalancer Liquidity "Fin 4" "[]"]
  by (simp add: example_arithmetic swapTokens_Liquidity main_rebalancer_simps)

text \<open>
  Claim C5, as the code has it. The two amounts that the strategy receives are the two
  that a successful withdrawal returned, and these are the targets. So neither amount
  is greater than its target, and when the token target is finite the token amount
  minus its target, the surplus of the asset that is swapped, is exactly 0, which is
  not negative. The strategy then reaches its one swap, from the token to SOL with the
  amount 0: computing the direction and the amount throws nothing.
\<close>

theorem rebalance_strategy_swap_amount:
  assumes "is_finite (initialTokenAmount this)"
    and "removeLiquidity this v tr1 = (tr2, Inr (sol, tok))"
  shows "\<not> num_gt sol (initialSolAmount this) \<and> \<not> num_gt tok (initialTokenAmount this) \<and>
         num_sub tok (initialTokenAmount this) = Fin 0 \<and>
         num_le (Fin 0) (num_sub tok (initialTokenAmount this)) \<and>
         filter is_swap (fst (rebalance_strategy this v sol tok tr2)) =
           filter is_swap tr2 @ [swapParams this (Fin 0) tokenToSol]"
proof -
  have pair: "sol = initialSolAmount this" "tok = initialTokenAmount this"
    using removeLiquidity_result[OF assms(2)] by simp_all
  have zero: "num_sub tok (initialTokenAmount this) = Fin 0"
    using num_sub_self[OF assms(1)] by (simp add: pair)
  show ?thesis
    by (simp add: rebalance_strategy_swaps zero) (simp add: pair num_gt_irrefl num_le_def)
qed

theorem rebalance_strategy_swap_amount_witness:
  "is_finite (initialTokenAmount main_rebalancer) \<and>
   removeLiquidity main_rebalancer Liquidity [] =
     ([RemoveLiquidity ''YOUR_RAYDIUM_POOL_ID'' ''100%'' ''owner'', GetLatestBlockhash, Sign 0 ''owner'',
       Serialize 0, SendRawTransaction 0, ConfirmTransaction 0], Inr (Fin 5, Fin 5)) \<and>
   \<not> num_gt (Fin 5) (Fin 5) \<and> num_sub (Fin 5) (Fin 5) = Fin 0 \<and> num_le (Fin 0) (Fin 0) \<and>
   filter is_swap (fst (rebalance_strategy main_rebalancer Liquidity (Fin 5) (Fin 5)
     [RemoveLiquidity ''YOUR_RAYDIUM_POOL_ID'' ''100%'' ''owner'', GetLatestBlockhash, Sign 0 ''owner'',
       Serialize 0, SendRawTransaction 0, ConfirmTransaction 0])) =
     [swapParams main_rebalancer (Fin 0) tokenToSol]"
proof -
  have fin: "is_finite (initialTokenAmount main_rebalancer)"
    by (simp add: main_rebalancer_simps)
  have rm: "removeLiquidity main_rebalancer Liquidity [] =
     ([RemoveLiquidity ''YOUR_RAYDIUM_POOL_ID'' ''100%'' ''owner'', GetLatestBlockhash, Sign 0 ''owner'',
       Serialize 0, SendRawTransaction 0, ConfirmTransaction 0], Inr (Fin 5, Fin 5))"
    by (simp add: removeLiquidity_Liquidity main_rebalancer_simps)
  show ?thesis
    using rebalance_strategy_swap_amount [OF fin rm] fin rm
    by (auto simp: main_rebalancer_simps num_le_def)
qed

text \<open>
  Claim C5 as the specification states it does not hold for every target: with a token
  target of \<^verbatim>\<open>NaN\<close> the run is out of range, the withdrawal returns the amounts 5 and
  \<^verbatim>\<open>NaN\<close>, and the amount of the swap is \<^verbatim>\<open>NaN\<close>, which is not at least 0.
\<close>

theorem rebalance_strategy_swap_amount_counterexample:
  "removeLiquidity nan_target_rebalancer Liquidity [FetchPoolById ''pool''] =
     ([FetchPoolById ''pool'', RemoveLiquidity ''pool'' ''100%'' ''owner'', GetLatestBlockhash,
       Sign 0 ''owner'', Serialize 0, SendRawTransaction 0, ConfirmTransaction 0], Inr (Fin 5, NaN)) \<and>
   filter is_swap (fst (rebalance nan_target_rebalancer Liquidity [])) =
     [swapParams nan_target_rebalancer NaN tokenToSol] \<and>
   \<not> num_le (Fin 0) NaN"
proof -
  have chk: "checkPositionRange nan_target_rebalancer Liquidity [] = ([FetchPoolById ''pool''], Inr False)"
    by code_simp
  have sub: "num_sub NaN NaN = NaN" "\<not> num_le (Fin 0) NaN"
    by (simp_all add: num_sub_def num_le_def)
  show ?thesis
    by (simp add: rebalance_out_of_range[OF chk] removeLiquidity_Liquidity rebalance_strategy_swaps
        nan_target_rebalancer_simps num_gt_irrefl sub)
qed

section \<open>The range check\<close>



text \<open>
  Claim C10. The range check divides the first amount of the pool by
  \<^verbatim>\<open>LAMPORTS_PER_SOL\<close> before it subtracts the SOL target, and it subtracts the token
  target from the second amount as the pool gives it: for every pool that was found,
  whatever the targets are, its answer is the conjunction below, where the divisor
  occurs on the SOL side only. In the witness the pool of the liquidity module,
  5000000000 and 5000000, has the drift 0 on the SOL side and the drift 999999 on the
  token side against the targets 5 and 5 of \<^verbatim>\<open>main\<close>, and is out of range.
\<close>

theorem checkPositionRange_units:
  assumes "fetchPoolById v (tr @ [FetchPoolById (poolId this)]) = Inr (Some (pool # pools))"
  shows "checkPositionRange this v tr =
     (tr @ [FetchPoolById (poolId this)],
      Inr (num_le (num_div (num_abs (num_sub (num_div (liquidity1Amount pool) LAMPORTS_PER_SOL)
                                      (initialSolAmount this))) (initialSolAmount this)) literal_0_1 \<and>
           num_le (num_div (num_abs (num_sub (liquidity2Amount pool) (initialTokenAmount this)))
                           (initialTokenAmount this)) literal_0_1))"
  using assms by (rule checkPositionRange_found)

theorem checkPositionRange_units_witness:
  "fetchPoolById Liquidity ([] @ [FetchPoolById (poolId main_rebalancer)]) =
     Inr (Some [\<lparr>liquidity1Amount = Fin 5000000000, liquidity2Amount = Fin 5000000\<rparr>]) \<and>
   num_div (num_abs (num_sub (num_div (Fin 5000000000) LAMPORTS_PER_SOL) (Fin 5))) (Fin 5) = Fin 0 \<and>
   num_div (num_abs (num_sub (Fin 5000000) (Fin 5))) (Fin 5) = Fin 999999 \<and>
   checkPositionRange main_rebalancer Liquidity [] = ([FetchPoolById ''YOUR_RAYDIUM_POOL_ID''], Inr False)"
proof -
  have drifts:
    "num_div (num_abs (num_sub (num_div (Fin 5000000000) LAMPORTS_PER_SOL) (Fin 5))) (Fin 5) = Fin 0"
    "num_div (num_abs (num_sub (Fin 5000000) (Fin 5))) (Fin 5) = Fin 999999"
    by code_simp+
  have cmp: "num_le (Fin 0) literal_0_1" "\<not> num_le (Fin 999999) literal_0_1"
    by code_simp+
  show ?thesis
    using checkPositionRange_units [of Liquidity "[]" main_rebalancer
      "\<lparr>liquidity1Amount = Fin 5000000000, liquidity2Amount = Fin 5000000\<rparr>" "[]"]
    by (simp add: main_rebalancer_simps Liquidity_simps drifts cmp)
qed

text \<open>
  Claim C7, as the code has it. Nothing checks the targets: the constructor stores them,
  and the first thing a run does is the pool query. When a target is 0 (positive zero,
  as the literal \<^verbatim>\<open>0\<close> is) and a pool is found, the range check answers false,
  whatever the pool holds, and the run goes on to the withdrawal.
\<close>

theorem zero_target_out_of_range:
  assumes "initialSolAmount this = Fin 0 \<or> initialTokenAmount this = Fin 0"
    and "fetchPoolById v (tr @ [FetchPoolById (poolId this)]) = Inr (Some (pool # pools))"
  shows "checkPositionRange this v tr = (tr @ [FetchPoolById (poolId this)], Inr False) \<and>
         filter is_withdraw (fst (rebalance this v tr)) =
           filter is_withdraw tr @ [RemoveLiquidity (poolId this) ''100%'' (owner this)]"
proof -
  have chk: "checkPositionRange this v tr = (tr @ [FetchPoolById (poolId this)], Inr False)"
    using assms(1) by (auto simp: checkPositionRange_found[OF assms(2)] drift_zero_target)
  obtain tr2 r where rm: "removeLiquidity this v (tr @ [FetchPoolById (poolId this)]) = (tr2, r)"
    by (cases "removeLiquidity this v (tr @ [FetchPoolById (poolId this)])")
  have "filter is_withdraw (fst (rebalance this v tr)) =
           filter is_withdraw tr @ [RemoveLiquidity (poolId this) ''100%'' (owner this)]"
    using removeLiquidity_withdraws[OF rm]
    by (cases r) (simp_all add: rebalance_out_of_range[OF chk] rm rebalance_strategy_withdraws)
  with chk show ?thesis by simp
qed

theorem zero_target_out_of_range_witness:
  "(initialSolAmount zero_target_rebalancer = Fin 0 \<or> initialTokenAmount zero_target_rebalancer = Fin 0) \<and>
   fetchPoolById Liquidity ([] @ [FetchPoolById (poolId zero_target_rebalancer)]) =
     Inr (Some [\<lparr>liquidity1Amount = Fin 5000000000, liquidity2Amount = Fin 5000000\<rparr>]) \<and>
   checkPositionRange zero_target_rebalancer Liquidity [] = ([FetchPoolById ''pool''], Inr False) \<and>
   filter is_withdraw (fst (rebalance zero_target_rebalancer Liquidity [])) =
     [RemoveLiquidity ''pool'' ''100%'' ''owner'']"
  using zero_target_out_of_range [of zero_target_rebalancer Liquidity "[]"
      "\<lparr>liquidity1Amount = Fin 5000000000, liquidity2Amount = Fin 5000000\<rparr>" "[]"]
  by (simp add: zero_target_rebalancer_simps Liquidity_simps)

text \<open>
  Claim C7 as the specification states it does not hold: with a SOL target of 0 and the
  venue of the liquidity module, the run raises no error; it queries the pool,
  withdraws, swaps, deposits and ends successfully.
\<close>

theorem zero_target_counterexample:
  "rebalance zero_target_rebalancer Liquidity [] =
     ([FetchPoolById ''pool'',
       RemoveLiquidity ''pool'' ''100%'' ''owner'',
       GetLatestBlockhash, Sign 0 ''owner'', Serialize 0, SendRawTransaction 0, ConfirmTransaction 0,
       Swap ''pool'' (PublicKey ''mint'') PublicKey_default (Fin 0) ''owner'',
       GetLatestBlockhash, Sign 0 ''owner'', Serialize 0, SendRawTransaction 0, ConfirmTransaction 0,
       AddLiquidity ''pool'' (Fin 0) (Fin 5) ''owner'',
       GetLatestBlockhash, Sign 0 ''owner'', Serialize 0, SendRawTransaction 0, ConfirmTransaction 0,
       ConsoleLog ''Liquidity rebalanced successfully''],
      Inr ())"
proof -
  have chk: "checkPositionRange zero_target_rebalancer Liquidity [] = ([FetchPoolById ''pool''], Inr False)"
    by (simp add: checkPositionRange_def Liquidity_simps zero_target_rebalancer_simps drift_zero_target)
  have arith: "\<not> num_gt (Fin 0) (Fin 0)" "num_sub (Fin 5) (Fin 5) = Fin 0"
    by (simp_all add: num_gt_def num_sub_def mk_zero_def)
  show ?thesis
    by (simp add: rebalance_def chk removeLiquidity_Liquidity rebalance_strategy_def
        swapTokens_Liquidity addLiquidity_Liquidity zero_target_rebalancer_simps swapParams_def
        arith example_arithmetic)
qed

section \<open>The run\<close>



text \<open>
  Claim C6. When the pool query answers nothing (\<^verbatim>\<open>null\<close>, \<^verbatim>\<open>undefined\<close> or an
  empty array), the run fails with the error \<^verbatim>\<open>Pool not found\<close> right after the
  query: no withdrawal, swap or deposit is called.
\<close>

theorem rebalance_pool_not_found:
  assumes "fetchPoolById v (tr @ [FetchPoolById (poolId this)]) = Inr None \<or>
           fetchPoolById v (tr @ [FetchPoolById (poolId this)]) = Inr (Some [])"
  shows "rebalance this v tr = (tr @ [FetchPoolById (poolId this)], Inl (Error ''Pool not found'')) \<and>
         filter is_operation (fst (rebalance this v tr)) = filter is_operation tr"
proof -
  have "checkPositionRange this v tr = (tr @ [FetchPoolById (poolId this)], Inl (Error ''Pool not found''))"
    using assms by (auto simp: checkPositionRange_def Let_def)
  then show ?thesis by (simp add: rebalance_def)
qed

theorem rebalance_pool_not_found_witness:
  "(fetchPoolById (Liquidity_with None) ([] @ [FetchPoolById (poolId main_rebalancer)]) = Inr None \<or>
    fetchPoolById (Liquidity_with None) ([] @ [FetchPoolById (poolId main_rebalancer)]) = Inr (Some [])) \<and>
   rebalance main_rebalancer (Liquidity_with None) [] =
     ([FetchPoolById ''YOUR_RAYDIUM_POOL_ID''], Inl (Error ''Pool not found'')) \<and>
   filter is_operation (fst (rebalance main_rebalancer (Liquidity_with None) [])) = []"
  using rebalance_pool_not_found [of "Liquidity_with None" "[]" main_rebalancer]
  by (simp add: Liquidity_with_simps main_rebalancer_simps)

text \<open>
  Claim C3, as the code has it. In a run that is out of range, whose withdrawal succeeds
  and whose swap fails with a thrown value, the run fails with that same value,
  unchanged, and no deposit is called. The stage is named on the console only: the last
  thing that happened is the line \<^verbatim>\<open>Error swapping tokens:\<close> printed with that value.
  The swap of such a run is from the token to SOL, of the token target minus itself,
  since the withdrawal returns the targets.
\<close>

theorem rebalance_swap_failure:
  assumes "checkPositionRange this v tr = (tr1, Inr False)"
    and "removeLiquidity this v tr1 = (tr2, Inr w)"
    and "swapTokens this v (num_sub (initialTokenAmount this) (initialTokenAmount this)) tokenToSol tr2 = (tr3, Inl e)"
  shows "rebalance this v tr = (tr3, Inl e) \<and>
         filter is_deposit tr3 = filter is_deposit tr \<and>
         last tr3 = ConsoleError ''Error swapping tokens:'' e"
proof -
  have "rebalance this v tr = (tr3, Inl e)"
    by (simp add: rebalance_out_of_range[OF assms(1)] assms(2)
        rebalance_strategy_swap_fails[OF num_gt_irrefl assms(3)])
  moreover have "filter is_deposit tr3 = filter is_deposit tr"
    using checkPositionRange_deposits[OF assms(1)] removeLiquidity_deposits[OF assms(2)]
      swapTokens_deposits[OF assms(3)] by simp
  ultimately show ?thesis
    using swapTokens_fails_last[OF assms(3)] by simp
qed

theorem rebalance_swap_failure_witness:
  "checkPositionRange main_rebalancer (Liquidity_swap_throws (Error ''TransactionError'')) [] =
     ([FetchPoolById ''YOUR_RAYDIUM_POOL_ID''], Inr False) \<and>
   removeLiquidity main_rebalancer (Liquidity_swap_throws (Error ''TransactionError''))
       [FetchPoolById ''YOUR_RAYDIUM_POOL_ID''] =
     ([FetchPoolById ''YOUR_RAYDIUM_POOL_ID'',
       RemoveLiquidity ''YOUR_RAYDIUM_POOL_ID'' ''100%'' ''owner'',
       GetLatestBlockhash, Sign 0 ''owner'', Serialize 0, SendRawTransaction 0, ConfirmTransaction 0],
      Inr (Fin 5, Fin 5)) \<and>
   rebalance main_rebalancer (Liquidity_swap_throws (Error ''TransactionError'')) [] =
     ([FetchPoolById ''YOUR_RAYDIUM_POOL_ID'',
       RemoveLiquidity ''YOUR_RAYDIUM_POOL_ID'' ''100%'' ''owner'',
       GetLatestBlockhash, Sign 0 ''owner'', Serialize 0, SendRawTransaction 0, ConfirmTransaction 0,
       Swap ''YOUR_RAYDIUM_POOL_ID'' (PublicKey ''TOKEN_MINT_ADDRESS'') PublicKey_default (Fin 0) ''owner'',
       ConsoleError ''Error swapping tokens:'' (Error ''TransactionError'')],
      Inl (Error ''TransactionError''))"
proof -
  let ?v = "Liquidity_swap_throws (Error ''TransactionError'')"
  let ?tr1 = "[FetchPoolById ''YOUR_RAYDIUM_POOL_ID'']"
  let ?tr2 = "[FetchPoolById ''YOUR_RAYDIUM_POOL_ID'',
       RemoveLiquidity ''YOUR_RAYDIUM_POOL_ID'' ''100%'' ''owner'',
       GetLatestBlockhash, Sign 0 ''owner'', Serialize 0, SendRawTransaction 0, ConfirmTransaction 0]"
  let ?tr3 = "?tr2 @ [Swap ''YOUR_RAYDIUM_POOL_ID'' (PublicKey ''TOKEN_MINT_ADDRESS'') PublicKey_default (Fin 0) ''owner'',
       ConsoleError ''Error swapping tokens:'' (Error ''TransactionError'')]"
  have chk: "checkPositionRange main_rebalancer ?v [] = (?tr1, Inr False)"
    by (rule checkPositionRange_main_out_of_range) (simp add: Liquidity_swap_throws_simps)
  have rm: "removeLiquidity main_rebalancer ?v ?tr1 = (?tr2, Inr (Fin 5, Fin 5))"
    by (simp add: removeLiquidity_def signAndSend_def Liquidity_swap_throws_simps main_rebalancer_simps)
  have sw: "swapTokens main_rebalancer ?v
      (num_sub (initialTokenAmount main_rebalancer) (initialTokenAmount main_rebalancer)) tokenToSol ?tr2 =
      (?tr3, Inl (Error ''TransactionError''))"
    by (simp add: swapTokens_def swapParams_def Liquidity_swap_throws_simps main_rebalancer_simps
        num_sub_def mk_zero_def)
  show ?thesis
    using rebalance_swap_failure [OF chk rm sw] chk rm by simp
qed

text \<open>
  Claim C3 as the specification states it does not hold: what the caller receives does
  not tell the stage. With the same thrown value, a run whose swap fails and a run whose
  deposit fails give the caller the same result, although the first has made no deposit
  call and the second has made one.
\<close>

theorem rebalance_swap_failure_counterexample:
  "snd (rebalance main_rebalancer (Liquidity_swap_throws (Error ''TransactionError'')) []) =
     Inl (Error ''TransactionError'') \<and>
   snd (rebalance main_rebalancer (Liquidity_deposit_throws (Error ''TransactionError'')) []) =
     Inl (Error ''TransactionError'') \<and>
   filter is_deposit (fst (rebalance main_rebalancer (Liquidity_swap_throws (Error ''TransactionError'')) [])) =
     [] \<and>
   filter is_deposit (fst (rebalance main_rebalancer (Liquidity_deposit_throws (Error ''TransactionError'')) [])) =
     [AddLiquidity ''YOUR_RAYDIUM_POOL_ID'' (Fin 5) (Fin 5) ''owner'']"
proof -
  have chk1: "checkPositionRange main_rebalancer (Liquidity_swap_throws (Error ''TransactionError'')) [] =
      ([FetchPoolById ''YOUR_RAYDIUM_POOL_ID''], Inr False)"
    by (rule checkPositionRange_main_out_of_range) (simp add: Liquidity_swap_throws_simps)
  have chk2: "checkPositionRange main_rebalancer (Liquidity_deposit_throws (Error ''TransactionError'')) [] =
      ([FetchPoolById ''YOUR_RAYDIUM_POOL_ID''], Inr False)"
    by (rule checkPositionRange_main_out_of_range) (simp add: Liquidity_deposit_throws_simps)
  have arith: "\<not> num_gt (Fin 5) (Fin 5)" "num_sub (Fin 5) (Fin 5) = Fin 0"
    by (simp_all add: num_gt_def num_sub_def mk_zero_def)
  have run1: "rebalance main_rebalancer (Liquidity_swap_throws (Error ''TransactionError'')) [] =
     ([FetchPoolById ''YOUR_RAYDIUM_POOL_ID'',
       RemoveLiquidity ''YOUR_RAYDIUM_POOL_ID'' ''100%'' ''owner'',
       GetLatestBlockhash, Sign 0 ''owner'', Serialize 0, SendRawTransaction 0, ConfirmTransaction 0,
       Swap ''YOUR_RAYDIUM_POOL_ID'' (PublicKey ''TOKEN_MINT_ADDRESS'') PublicKey_default (Fin 0) ''owner'',
       ConsoleError ''Error swapping tokens:'' (Error ''TransactionError'')],
      Inl (Error ''TransactionError''))"
    by (simp add: rebalance_def chk1 removeLiquidity_def swapTokens_def signAndSend_def
        rebalance_strategy_def swapParams_def Liquidity_swap_throws_simps main_rebalancer_simps arith)
  have run2: "rebalance main_rebalancer (Liquidity_deposit_throws (Error ''TransactionError'')) [] =
     ([FetchPoolById ''YOUR_RAYDIUM_POOL_ID'',
       RemoveLiquidity ''YOUR_RAYDIUM_POOL_ID'' ''100%'' ''owner'',
       GetLatestBlockhash, Sign 0 ''owner'', Serialize 0, SendRawTransaction 0, ConfirmTransaction 0,
       Swap ''YOUR_RAYDIUM_POOL_ID'' (PublicKey ''TOKEN_MINT_ADDRESS'') PublicKey_default (Fin 0) ''owner'',
       GetLatestBlockhash, Sign 0 ''owner'', Serialize 0, SendRawTransaction 0, ConfirmTransaction 0,
       AddLiquidity ''YOUR_RAYDIUM_POOL_ID'' (Fin 5) (Fin 5) ''owner'',
       ConsoleError ''Error adding liquidity:'' (Error ''TransactionError'')],
      Inl (Error ''TransactionError''))"
    by (simp add: rebalance_def chk2 removeLiquidity_def swapTokens_def addLiquidity_def signAndSend_def
        rebalance_strategy_def swapParams_def Liquidity_deposit_throws_simps main_rebalancer_simps arith
        example_arithmetic Let_def)
  show ?thesis
    by (simp add: run1 run2)
qed

section \<open>The withdrawal and what follows it\<close>

text \<open>
  Claim C8. A withdrawal that succeeds returns the two targets of the configuration,
  whatever the venue answered; and it succeeds as soon as the venue builds the
  transaction and the transaction is sent and confirmed.
\<close>

theorem removeLiquidity_returns_targets:
  "(removeLiquidity this v tr = (tr', Inr w) \<longrightarrow>
      w = (initialSolAmount this, initialTokenAmount this)) \<and>
   (liquidity_removeLiquidity v (tr @ [RemoveLiquidity (poolId this) ''100%'' (owner this)]) = Inr tx \<and>
    signAndSend this v tx (tr @ [RemoveLiquidity (poolId this) ''100%'' (owner this)]) = (tr', Inr ()) \<longrightarrow>
      removeLiquidity this v tr = (tr', Inr (initialSolAmount this, initialTokenAmount this)))"
  by (auto simp: removeLiquidity_def Let_def split: sum.splits prod.splits)

theorem removeLiquidity_returns_targets_witness:
  "liquidity_removeLiquidity Liquidity
     ([FetchPoolById ''YOUR_RAYDIUM_POOL_ID''] @
      [RemoveLiquidity (poolId main_rebalancer) ''100%'' (owner main_rebalancer)]) = Inr 0 \<and>
   signAndSend main_rebalancer Liquidity 0
     ([FetchPoolById ''YOUR_RAYDIUM_POOL_ID''] @
      [RemoveLiquidity (poolId main_rebalancer) ''100%'' (owner main_rebalancer)]) =
     ([FetchPoolById ''YOUR_RAYDIUM_POOL_ID'', RemoveLiquidity ''YOUR_RAYDIUM_POOL_ID'' ''100%'' ''owner'',
       GetLatestBlockhash, Sign 0 ''owner'', Serialize 0, SendRawTransaction 0, ConfirmTransaction 0],
      Inr ()) \<and>
   removeLiquidity main_rebalancer Liquidity [FetchPoolById ''YOUR_RAYDIUM_POOL_ID''] =
     ([FetchPoolById ''YOUR_RAYDIUM_POOL_ID'', RemoveLiquidity ''YOUR_RAYDIUM_POOL_ID'' ''100%'' ''owner'',
       GetLatestBlockhash, Sign 0 ''owner'', Serialize 0, SendRawTransaction 0, ConfirmTransaction 0],
      Inr (Fin 5, Fin 5))"
  using removeLiquidity_returns_targets [of main_rebalancer Liquidity "[FetchPoolById ''YOUR_RAYDIUM_POOL_ID'']"
      "[FetchPoolById ''YOUR_RAYDIUM_POOL_ID'', RemoveLiquidity ''YOUR_RAYDIUM_POOL_ID'' ''100%'' ''owner'',
       GetLatestBlockhash, Sign 0 ''owner'', Serialize 0, SendRawTransaction 0, ConfirmTransaction 0]"
      "(Fin 5, Fin 5)" 0]
  by (simp add: Liquidity_simps signAndSend_Liquidity main_rebalancer_simps)

text \<open>
  Claim C9, as the code has it. In a run that is out of range and whose withdrawal
  succeeds, the token target being finite, the one swap is from the token to SOL with
  the amount 0, and once it has returned the deposit is of what the swap returned plus
  the SOL target, and of the token target.
\<close>

theorem rebalance_swaps_zero_tokens:
  assumes "is_finite (initialTokenAmount this)"
    and "checkPositionRange this v tr = (tr1, Inr False)"
    and "removeLiquidity this v tr1 = (tr2, Inr w)"
  shows "filter is_swap (fst (rebalance this v tr)) =
           filter is_swap tr @ [swapParams this (Fin 0) tokenToSol] \<and>
         (\<forall>tr3 out. swapTokens this v (Fin 0) tokenToSol tr2 = (tr3, Inr out) \<longrightarrow>
            filter is_deposit (fst (rebalance this v tr)) =
              filter is_deposit tr @
                [AddLiquidity (poolId this) (num_add out (initialSolAmount this))
                   (initialTokenAmount this) (owner this)])"
proof -
  have run: "rebalance this v tr =
      rebalance_strategy this v (initialSolAmount this) (initialTokenAmount this) tr2"
    by (simp add: rebalance_out_of_range[OF assms(2)] assms(3))
  have zero: "num_sub (initialTokenAmount this) (initialTokenAmount this) = Fin 0"
    by (rule num_sub_self[OF assms(1)])
  have swaps: "filter is_swap tr2 = filter is_swap tr"
    using checkPositionRange_swaps[OF assms(2)] removeLiquidity_swaps[OF assms(3)] by simp
  have deposits: "filter is_deposit tr2 = filter is_deposit tr"
    using checkPositionRange_deposits[OF assms(2)] removeLiquidity_deposits[OF assms(3)] by simp
  have "filter is_swap (fst (rebalance this v tr)) =
           filter is_swap tr @ [swapParams this (Fin 0) tokenToSol]"
    by (simp add: run rebalance_strategy_swaps num_gt_irrefl zero swaps)
  moreover have "filter is_deposit (fst (rebalance this v tr)) =
              filter is_deposit tr @
                [AddLiquidity (poolId this) (num_add out (initialSolAmount this))
                   (initialTokenAmount this) (owner this)]"
    if "swapTokens this v (Fin 0) tokenToSol tr2 = (tr3, Inr out)" for tr3 out
    using rebalance_strategy_deposits_token[OF num_gt_irrefl, where this=this and tok="initialTokenAmount this"
        and v=v and tr=tr2 and ?tr1.0=tr3 and out=out]
      that by (simp add: run zero deposits)
  ultimately show ?thesis by blast
qed

theorem rebalance_swaps_zero_tokens_witness:
  "is_finite (initialTokenAmount main_rebalancer) \<and>
   checkPositionRange main_rebalancer Liquidity [] = ([FetchPoolById ''YOUR_RAYDIUM_POOL_ID''], Inr False) \<and>
   removeLiquidity main_rebalancer Liquidity [FetchPoolById ''YOUR_RAYDIUM_POOL_ID''] =
     ([FetchPoolById ''YOUR_RAYDIUM_POOL_ID'', RemoveLiquidity ''YOUR_RAYDIUM_POOL_ID'' ''100%'' ''owner'',
       GetLatestBlockhash, Sign 0 ''owner'', Serialize 0, SendRawTransaction 0, ConfirmTransaction 0],
      Inr (Fin 5, Fin 5)) \<and>
   filter is_swap (fst (rebalance main_rebalancer Liquidity [])) =
     [Swap ''YOUR_RAYDIUM_POOL_ID'' (PublicKey ''TOKEN_MINT_ADDRESS'') PublicKey_default (Fin 0) ''owner''] \<and>
   filter is_deposit (fst (rebalance main_rebalancer Liquidity [])) =
     [AddLiquidity ''YOUR_RAYDIUM_POOL_ID'' (Fin 5) (Fin 5) ''owner'']"
proof -
  let ?tr1 = "[FetchPoolById ''YOUR_RAYDIUM_POOL_ID'']"
  let ?tr2 = "[FetchPoolById ''YOUR_RAYDIUM_POOL_ID'', RemoveLiquidity ''YOUR_RAYDIUM_POOL_ID'' ''100%'' ''owner'',
       GetLatestBlockhash, Sign 0 ''owner'', Serialize 0, SendRawTransaction 0, ConfirmTransaction 0]"
  have fin: "is_finite (initialTokenAmount main_rebalancer)"
    by (simp add: main_rebalancer_simps)
  have chk: "checkPositionRange main_rebalancer Liquidity [] = (?tr1, Inr False)"
    by (rule checkPositionRange_main_out_of_range) (simp add: Liquidity_simps)
  have rm: "removeLiquidity main_rebalancer Liquidity ?tr1 = (?tr2, Inr (Fin 5, Fin 5))"
    by (simp add: removeLiquidity_Liquidity main_rebalancer_simps)
  show ?thesis
    using rebalance_swaps_zero_tokens [OF fin chk rm] fin chk rm
    by (simp add: swapTokens_Liquidity main_rebalancer_simps swapParams_def example_arithmetic)
qed

text \<open>
  Claim C9 as stated does not hold for every run: with a token target of
  \<^verbatim>\<open>Infinity\<close> the run is out of range, the withdrawal succeeds, and the amount of the
  one swap is \<^verbatim>\<open>NaN\<close>, not 0.
\<close>

theorem rebalance_swaps_zero_tokens_counterexample:
  "checkPositionRange infinite_target_rebalancer Liquidity [] = ([FetchPoolById ''pool''], Inr False) \<and>
   removeLiquidity infinite_target_rebalancer Liquidity [FetchPoolById ''pool''] =
     ([FetchPoolById ''pool'', RemoveLiquidity ''pool'' ''100%'' ''owner'', GetLatestBlockhash,
       Sign 0 ''owner'', Serialize 0, SendRawTransaction 0, ConfirmTransaction 0], Inr (Fin 5, PosInf)) \<and>
   filter is_swap (fst (rebalance infinite_target_rebalancer Liquidity [])) =
     [Swap ''pool'' (PublicKey ''mint'') PublicKey_default NaN ''owner''] \<and>
   NaN \<noteq> Fin 0"
proof -
  have chk: "checkPositionRange infinite_target_rebalancer Liquidity [] = ([FetchPoolById ''pool''], Inr False)"
    by code_simp
  have sub: "num_sub PosInf PosInf = NaN"
    by (simp add: num_sub_def)
  show ?thesis
    by (simp add: chk rebalance_out_of_range[OF chk] removeLiquidity_Liquidity rebalance_strategy_swaps
        infinite_target_rebalancer_simps num_gt_irrefl sub swapParams_def)
qed

end
